theory Spec2Isabelle
  imports Main "HOL-Library.Char_ord" "HOL-Library.List_Lexorder"
begin

section \<open>Fractional-index order keys (fracdex)\<close>

text \<open>
  Go strings are byte sequences: they are modelled as \<open>string\<close> (a list of 8-bit
  characters), compared byte-wise by the lexicographic order of \<open>List_Lexorder\<close> over
  the byte order of \<open>Char_ord\<close>, which is Go's \<open><\<close> on strings.

  A Go function returning \<open>(T, error)\<close> is modelled by a value of \<open>'a result\<close>:
  \<open>Ok v\<close> is \<open>(v, nil)\<close>, \<open>Error msg\<close> is \<open>(zero value, err)\<close> with \<open>err.Error() = msg\<close>,
  and \<open>Panic\<close> is a run-time panic (index or slice bound out of range).
\<close>

datatype 'a result = Ok 'a | Error string | Panic

subsection \<open>Go library operations used by the package\<close>

text \<open>The conversion \<open>string(c)\<close> of a byte: the UTF-8 encoding of the code point \<open>c\<close>.\<close>

definition string_of_byte :: "char \<Rightarrow> string" where
  "string_of_byte c =
     (let n = (of_char c :: nat)
      in if n < 128 then [c] else [char_of (192 + n div 64), char_of (128 + n mod 64)])"

text \<open>\<open>strings.Index(s, sub)\<close>: the first position of \<open>sub\<close> in \<open>s\<close>, or \<open>-1\<close>.\<close>

fun strings_Index :: "string \<Rightarrow> string \<Rightarrow> int" where
  "strings_Index [] sub = (if sub = [] then 0 else - 1)"
| "strings_Index (c # t) sub =
     (if take (length sub) (c # t) = sub then 0
      else (let r = strings_Index t sub in if r < 0 then - 1 else r + 1))"

text \<open>\<open>strings.HasSuffix(s, suffix)\<close>.\<close>

definition strings_HasSuffix :: "string \<Rightarrow> string \<Rightarrow> bool" where
  "strings_HasSuffix s suffix =
     (length suffix \<le> length s \<and> drop (length s - length suffix) s = suffix)"

text \<open>
  The width in bytes of the first UTF-8 sequence of a non-empty string, as
  \<open>utf8.DecodeRuneInString\<close> reports it: an invalid or truncated sequence has width 1.
\<close>

definition cont_byte :: "nat \<Rightarrow> bool" where
  "cont_byte n = (128 \<le> n \<and> n \<le> 191)"

definition utf8_width :: "string \<Rightarrow> nat" where
  "utf8_width s =
     (let bs = map (of_char :: char \<Rightarrow> nat) s;
          n = length bs;
          s0 = bs ! 0;
          sz = (if 194 \<le> s0 \<and> s0 \<le> 223 then 2
                else if 224 \<le> s0 \<and> s0 \<le> 239 then 3
                else if 240 \<le> s0 \<and> s0 \<le> 244 then 4 else (1::nat));
          lo = (if s0 = 224 then 160 else if s0 = 240 then 144 else (128::nat));
          hi = (if s0 = 237 then 159 else if s0 = 244 then 143 else (191::nat))
      in if sz = 1 then 1
         else if n < sz then 1
         else if bs ! 1 < lo \<or> hi < bs ! 1 then 1
         else if sz \<le> 2 then 2
         else if \<not> cont_byte (bs ! 2) then 1
         else if sz \<le> 3 then 3
         else if \<not> cont_byte (bs ! 3) then 1
         else 4)"

text \<open>\<open>strings.Split(s, "")\<close>: the string cut into its UTF-8 sequences.\<close>

function explode :: "string \<Rightarrow> string list" where
  "explode s =
     (if s = [] then []
      else (let w = utf8_width s in take w s # explode (drop w s)))"
  by pat_completeness auto
termination
proof (relation "measure length", goal_cases)
  case 1
  show ?case by simp
next
  case (2 s w)
  have "0 < utf8_width s"
    unfolding utf8_width_def Let_def by (simp only: if_distrib [of "\<lambda>n. 0 < n"] zero_less_one zero_less_numeral if_True if_False if_cancel)
  with 2 show ?case by simp
qed

text \<open>\<open>strings.Join(digs, "")\<close>.\<close>

definition strings_Join :: "string list \<Rightarrow> string" where
  "strings_Join digs = concat digs"

text \<open>Indexing a string by a Go \<open>int\<close>: out of range is a run-time panic.\<close>

definition byte_at :: "string \<Rightarrow> int \<Rightarrow> char result" where
  "byte_at s i = (if 0 \<le> i \<and> i < int (length s) then Ok (s ! nat i) else Panic)"

text \<open>
  \<open>int(math.Round(0.5 * float64(n)))\<close> for an integer \<open>n\<close> of small magnitude: the
  product is exact in binary floating point and \<open>math.Round\<close> rounds halves away from zero.
\<close>

definition round_half :: "int \<Rightarrow> int" where
  "round_half n = (if 0 \<le> n then (n + 1) div 2 else - ((1 - n) div 2))"

subsection \<open>Constants\<close>

definition base62Digits :: string where
  "base62Digits = ''0123456789ABCDEFGHIJKLMNOPQRSTUVWXYZabcdefghijklmnopqrstuvwxyz''"

definition smallestInt :: string where
  "smallestInt = ''A00000000000000000000000000''"

definition zero :: string where
  "zero = ''a0''"

text \<open>\<open>strings.Index(base62Digits, string(c))\<close> for a byte \<open>c\<close>.\<close>

definition digit_index :: "char \<Rightarrow> int" where
  "digit_index c = strings_Index base62Digits (string_of_byte c)"

subsection \<open>The integer part\<close>

definition getIntLen :: "char \<Rightarrow> int result" where
  "getIntLen head =
     (if CHR ''a'' \<le> head \<and> head \<le> CHR ''z'' then Ok (int (of_char head) - 97 + 2)
      else if CHR ''A'' \<le> head \<and> head \<le> CHR ''Z'' then Ok (90 - int (of_char head) + 2)
      else Error (''invalid order key head: '' @ string_of_byte head))"

definition validateInt :: "string \<Rightarrow> unit result" where
  "validateInt i =
     (case i of
        [] \<Rightarrow> Panic
      | h # _ \<Rightarrow>
          (case getIntLen h of
             Error e \<Rightarrow> Error e
           | Panic \<Rightarrow> Panic
           | Ok exp \<Rightarrow>
               if int (length i) \<noteq> exp
               then Error (''invalid integer part of order key: '' @ i)
               else Ok ()))"

definition getIntPart :: "string \<Rightarrow> string result" where
  "getIntPart key =
     (case key of
        [] \<Rightarrow> Panic
      | h # _ \<Rightarrow>
          (case getIntLen h of
             Error e \<Rightarrow> Error e
           | Panic \<Rightarrow> Panic
           | Ok intPartLen \<Rightarrow>
               if intPartLen > int (length key)
               then Error (''invalid order key: '' @ key)
               else Ok (take (nat intPartLen) key)))"

definition validateOrderKey :: "string \<Rightarrow> unit result" where
  "validateOrderKey key =
     (if key = smallestInt then Error (''invalid order key: '' @ key)
      else (case getIntPart key of
              Error e \<Rightarrow> Error e
            | Panic \<Rightarrow> Panic
            | Ok i \<Rightarrow>
                (let f = drop (length i) key
                 in if strings_HasSuffix f ''0''
                    then Error (''invalid order key: '' @ key)
                    else Ok ())))"

text \<open>Byte arithmetic \<open>c + 1\<close> and \<open>c - 1\<close> on a \<open>uint8\<close>: it wraps modulo 256.\<close>

definition byte_succ :: "char \<Rightarrow> char" where
  "byte_succ c = char_of ((of_char c + (1::nat)) mod 256)"

definition byte_pred :: "char \<Rightarrow> char" where
  "byte_pred c = char_of ((of_char c + (255::nat)) mod 256)"

text \<open>
  The carry loop of \<open>incrementInt\<close>, \<open>for i := len(digs) - 1; carry && i >= 0; i--\<close>,
  entered with \<open>carry = true\<close>: it returns the digits and the final carry.
\<close>

function inc_loop :: "string list \<Rightarrow> int \<Rightarrow> (string list \<times> bool) result" where
  "inc_loop digs i =
     (if i \<ge> 0 then
        (let d = strings_Index base62Digits (digs ! nat i) + 1
         in if d = int (length base62Digits)
            then inc_loop (digs[nat i := ''0'']) (i - 1)
            else (case byte_at base62Digits d of
                    Ok c \<Rightarrow> Ok (digs[nat i := string_of_byte c], False)
                  | Error e \<Rightarrow> Error e
                  | Panic \<Rightarrow> Panic))
      else Ok (digs, True))"
  by pat_completeness auto
termination
  by (relation "measure (\<lambda>(digs, i). nat (i + 1))") auto

definition incrementInt :: "string \<Rightarrow> string result" where
  "incrementInt x =
     (case validateInt x of
        Error e \<Rightarrow> Error e
      | Panic \<Rightarrow> Panic
      | Ok _ \<Rightarrow>
          (case explode x of
             [] \<Rightarrow> Panic
           | head # digs0 \<Rightarrow>
               (case inc_loop digs0 (int (length digs0) - 1) of
                  Error e \<Rightarrow> Error e
                | Panic \<Rightarrow> Panic
                | Ok (digs, carry) \<Rightarrow>
                    if carry then
                      if head = ''Z'' then Ok ''a0''
                      else if head = ''z'' then Ok []
                      else (case head of
                              [] \<Rightarrow> Panic
                            | h0 # _ \<Rightarrow>
                                (let h = string_of_byte (byte_succ h0)
                                 in if h > ''a''
                                    then Ok (h @ strings_Join (digs @ [''0'']))
                                    else if digs = [] then Panic
                                    else Ok (h @ strings_Join (tl digs))))
                    else Ok (head @ strings_Join digs))))"

text \<open>The borrow loop of \<open>decrementInt\<close>, entered with \<open>borrow = true\<close>.\<close>

function dec_loop :: "string list \<Rightarrow> int \<Rightarrow> (string list \<times> bool) result" where
  "dec_loop digs i =
     (if i \<ge> 0 then
        (let d = strings_Index base62Digits (digs ! nat i) - 1
         in if d = - 1
            then (case byte_at base62Digits (int (length base62Digits) - 1) of
                    Ok c \<Rightarrow> dec_loop (digs[nat i := string_of_byte c]) (i - 1)
                  | Error e \<Rightarrow> Error e
                  | Panic \<Rightarrow> Panic)
            else (case byte_at base62Digits d of
                    Ok c \<Rightarrow> Ok (digs[nat i := string_of_byte c], False)
                  | Error e \<Rightarrow> Error e
                  | Panic \<Rightarrow> Panic))
      else Ok (digs, True))"
  by pat_completeness auto
termination
  by (relation "measure (\<lambda>(digs, i). nat (i + 1))") auto

definition decrementInt :: "string \<Rightarrow> string result" where
  "decrementInt x =
     (case validateInt x of
        Error e \<Rightarrow> Error e
      | Panic \<Rightarrow> Panic
      | Ok _ \<Rightarrow>
          (case explode x of
             [] \<Rightarrow> Panic
           | head # digs0 \<Rightarrow>
               (case dec_loop digs0 (int (length digs0) - 1) of
                  Error e \<Rightarrow> Error e
                | Panic \<Rightarrow> Panic
                | Ok (digs, borrow) \<Rightarrow>
                    if borrow then
                      if head = ''a'' then
                        (case byte_at base62Digits (int (length base62Digits) - 1) of
                           Ok c \<Rightarrow> Ok (''Z'' @ string_of_byte c)
                         | Error e \<Rightarrow> Error e
                         | Panic \<Rightarrow> Panic)
                      else if head = ''A'' then Ok []
                      else (case head of
                              [] \<Rightarrow> Panic
                            | h0 # _ \<Rightarrow>
                                (let h = byte_pred h0
                                 in if h < CHR ''Z''
                                    then (case byte_at base62Digits (int (length base62Digits) - 1) of
                                            Ok c \<Rightarrow>
                                              Ok (string_of_byte h
                                                  @ strings_Join (digs @ [string_of_byte c]))
                                          | Error e \<Rightarrow> Error e
                                          | Panic \<Rightarrow> Panic)
                                    else if digs = [] then Panic
                                    else Ok (string_of_byte h @ strings_Join (tl digs))))
                    else Ok (head @ strings_Join digs))))"

subsection \<open>The midpoint of two fractional parts\<close>

text \<open>
  The common-prefix loop of \<open>midpoint\<close>, started at \<open>i = 0\<close>; it returns the final \<open>i\<close>.
  A missing byte of \<open>a\<close> reads as \<open>'0'\<close>.
\<close>

function prefix_loop :: "string \<Rightarrow> string \<Rightarrow> nat \<Rightarrow> nat" where
  "prefix_loop a b i =
     (if i < length b then
        (let c = (if length a > i then a ! i else CHR ''0'')
         in if c \<noteq> b ! i then i else prefix_loop a b (i + 1))
      else i)"
  by pat_completeness auto
termination
  by (relation "measure (\<lambda>(a, b, i). length b - i)") auto

text \<open>String concatenation \<open>p + f(...)\<close> where the call may panic.\<close>

definition prepend :: "string \<Rightarrow> string result \<Rightarrow> string result" where
  "prepend p r = (case r of Ok s \<Rightarrow> Ok (p @ s) | Error e \<Rightarrow> Error e | Panic \<Rightarrow> Panic)"

function midpoint :: "string \<Rightarrow> string \<Rightarrow> string result" where
  "midpoint a b =
     (let i = (if b \<noteq> [] then prefix_loop a b 0 else 0)
      in if b \<noteq> [] \<and> i > 0 then
           (if i > length a then prepend (take i b) (midpoint [] (drop i b))
            else prepend (take i b) (midpoint (drop i a) (drop i b)))
         else
           (let digitA = (if a \<noteq> [] then digit_index (hd a) else 0);
                digitB = (if b \<noteq> [] then digit_index (hd b) else int (length base62Digits))
            in if digitB - digitA > 1 then
                 (case byte_at base62Digits (round_half (digitA + digitB)) of
                    Ok c \<Rightarrow> Ok (string_of_byte c)
                  | Error e \<Rightarrow> Error e
                  | Panic \<Rightarrow> Panic)
               else if length b > 1 then Ok (take 1 b)
               else
                 (let sa = (if length a > 0 then drop 1 a else [])
                  in (case byte_at base62Digits digitA of
                        Ok c \<Rightarrow> prepend (string_of_byte c) (midpoint sa [])
                      | Error e \<Rightarrow> Error e
                      | Panic \<Rightarrow> Panic))))"
  by pat_completeness auto
termination
proof (relation "measure (\<lambda>(a, b). length a + length b)", goal_cases)
  case 1
  show ?case by simp
next
  case (2 a b i)
  then show ?case by (cases b) (simp_all del: prefix_loop.simps)
next
  case (3 a b i)
  then show ?case by (cases b) (simp_all del: prefix_loop.simps)
next
  case (4 a b i digitA digitB sa c)
  have len: "length base62Digits = 62"
    by (simp add: base62Digits_def)
  show ?case
  proof (cases "a = [] \<and> b = []")
    case True
    with 4(3,4,5) len show ?thesis by simp
  next
    case False
    with 4(7) show ?thesis by (cases a; cases b) (simp_all del: prefix_loop.simps)
  qed
qed

declare explode.simps [simp del]
declare inc_loop.simps [simp del]
declare dec_loop.simps [simp del]
declare prefix_loop.simps [simp del]
declare midpoint.simps [simp del]

subsection \<open>A key between two keys\<close>

definition KeyBetween :: "string \<Rightarrow> string \<Rightarrow> string result" where
  "KeyBetween a b =
     (case (if a \<noteq> [] then validateOrderKey a else Ok ()) of
        Error e \<Rightarrow> Error e
      | Panic \<Rightarrow> Panic
      | Ok _ \<Rightarrow>
     (case (if b \<noteq> [] then validateOrderKey b else Ok ()) of
        Error e \<Rightarrow> Error e
      | Panic \<Rightarrow> Panic
      | Ok _ \<Rightarrow>
     if a \<noteq> [] \<and> b \<noteq> [] \<and> a \<ge> b then Error (a @ '' >= '' @ b)
     else if a = [] then
       (if b = [] then Ok zero
        else
          (case getIntPart b of
             Error e \<Rightarrow> Error e
           | Panic \<Rightarrow> Panic
           | Ok ib \<Rightarrow>
               (let fb = drop (length ib) b
                in if ib = smallestInt then prepend ib (midpoint [] fb)
                   else if ib < b then Ok ib
                   else
                     (case decrementInt ib of
                        Error e \<Rightarrow> Error e
                      | Panic \<Rightarrow> Panic
                      | Ok res \<Rightarrow>
                          if res = [] then Error ''range underflow'' else Ok res))))
     else if b = [] then
       (case getIntPart a of
          Error e \<Rightarrow> Error e
        | Panic \<Rightarrow> Panic
        | Ok ia \<Rightarrow>
            (let fa = drop (length ia) a
             in (case incrementInt ia of
                   Error e \<Rightarrow> Error e
                 | Panic \<Rightarrow> Panic
                 | Ok i \<Rightarrow> if i = [] then prepend ia (midpoint fa []) else Ok i)))
     else
       (case getIntPart a of
          Error e \<Rightarrow> Error e
        | Panic \<Rightarrow> Panic
        | Ok ia \<Rightarrow>
            (let fa = drop (length ia) a
             in (case getIntPart b of
                   Error e \<Rightarrow> Error e
                 | Panic \<Rightarrow> Panic
                 | Ok ib \<Rightarrow>
                     (let fb = drop (length ib) b
                      in if ia = ib then prepend ia (midpoint fa fb)
                         else
                           (case incrementInt ia of
                              Error e \<Rightarrow> Error e
                            | Panic \<Rightarrow> Panic
                            | Ok i \<Rightarrow>
                                if i = [] then Error ''range overflow''
                                else if i < b then Ok i
                                else prepend ia (midpoint fa []))))))))"

subsection \<open>Several keys between two keys\<close>

text \<open>The in-place \<open>reverse\<close>: the loop \<open>for i := 0; i < len(values)/2; i++\<close> from index \<open>i\<close>.\<close>

function reverse_loop :: "string list \<Rightarrow> nat \<Rightarrow> string list" where
  "reverse_loop values i =
     (if i < length values div 2 then
        (let j = length values - i - 1
         in reverse_loop (values[i := values ! j, j := values ! i]) (i + 1))
      else values)"
  by pat_completeness auto
termination
  by (relation "measure (\<lambda>(values, i). length values div 2 - i)") auto

definition reverse :: "string list \<Rightarrow> string list" where
  "reverse values = reverse_loop values 0"

text \<open>
  \<open>make([]string, 0, n)\<close> for \<open>n\<close> of type \<open>uint\<close>: a capacity that is not representable
  as an \<open>int\<close> is a run-time panic. (Exhaustion of memory at smaller capacities is not
  modelled.)
\<close>

definition make_fits :: "nat \<Rightarrow> bool" where
  "make_fits n = (n < 2 ^ 63)"

text \<open>
  The loops \<open>for i := 0; i < int(n)-1; i++\<close> of \<open>NKeysBetween\<close> with \<open>k\<close> iterations
  left: the first walks upwards from \<open>c\<close> (\<open>b\<close> is the empty upper bound), the second
  downwards (\<open>a\<close> is the empty lower bound).
\<close>

fun append_loop :: "string \<Rightarrow> nat \<Rightarrow> string \<Rightarrow> string list \<Rightarrow> string list result" where
  "append_loop b 0 c result = Ok result"
| "append_loop b (Suc k) c result =
     (case KeyBetween c b of
        Error e \<Rightarrow> Error e
      | Panic \<Rightarrow> Panic
      | Ok c' \<Rightarrow> append_loop b k c' (result @ [c']))"

fun prepend_loop :: "string \<Rightarrow> nat \<Rightarrow> string \<Rightarrow> string list \<Rightarrow> string list result" where
  "prepend_loop a 0 c result = Ok result"
| "prepend_loop a (Suc k) c result =
     (case KeyBetween a c of
        Error e \<Rightarrow> Error e
      | Panic \<Rightarrow> Panic
      | Ok c' \<Rightarrow> prepend_loop a k c' (result @ [c']))"

function NKeysBetween :: "string \<Rightarrow> string \<Rightarrow> nat \<Rightarrow> string list result" where
  "NKeysBetween a b n =
     (if n = 0 then Ok []
      else if n = 1 then
        (case KeyBetween a b of
           Error e \<Rightarrow> Error e
         | Panic \<Rightarrow> Panic
         | Ok c \<Rightarrow> Ok [c])
      else if b = [] then
        (case KeyBetween a b of
           Error e \<Rightarrow> Error e
         | Panic \<Rightarrow> Panic
         | Ok c \<Rightarrow>
             if \<not> make_fits n then Panic
             else append_loop b (n - 1) c [c])
      else if a = [] then
        (case KeyBetween a b of
           Error e \<Rightarrow> Error e
         | Panic \<Rightarrow> Panic
         | Ok c \<Rightarrow>
             if \<not> make_fits n then Panic
             else
               (case prepend_loop a (n - 1) c [c] of
                  Error e \<Rightarrow> Error e
                | Panic \<Rightarrow> Panic
                | Ok result \<Rightarrow> Ok (reverse result)))
      else
        (let mid = n div 2
         in (case KeyBetween a b of
               Error e \<Rightarrow> Error e
             | Panic \<Rightarrow> Panic
             | Ok c \<Rightarrow>
                 if \<not> make_fits n then Panic
                 else
                   (case NKeysBetween a c mid of
                      Error e \<Rightarrow> Error e
                    | Panic \<Rightarrow> Panic
                    | Ok r1 \<Rightarrow>
                        (case NKeysBetween c b (n - mid - 1) of
                           Error e \<Rightarrow> Error e
                         | Panic \<Rightarrow> Panic
                         | Ok r2 \<Rightarrow> Ok (r1 @ [c] @ r2))))))"
  by pat_completeness auto
termination
  by (relation "measure (\<lambda>(a, b, n). n)") auto

declare reverse_loop.simps [simp del]
declare NKeysBetween.simps [simp del]

subsection \<open>Randomised keys\<close>

text \<open>
  A Go \<open>int\<close> has 64 bits: \<open>int64 x\<close> is the value of the mathematical integer \<open>x\<close> after
  wrap-around.
\<close>

definition int64 :: "int \<Rightarrow> int" where
  "int64 x = (x + 2 ^ 63) mod 2 ^ 64 - 2 ^ 63"

text \<open>
  A value of the interface \<open>Jitter\<close>: the method \<open>IntnRange(min, max)\<close> of an arbitrary
  implementation, as a function of the two bounds and of the state of the source. It
  returns the number drawn, or \<open>None\<close> when the call panics, and the next state.
\<close>

type_synonym 's jitter = "int \<Rightarrow> int \<Rightarrow> 's \<Rightarrow> int option \<times> 's"

definition NoJitter :: "'s jitter" where
  "NoJitter lo hi s = (Some 0, s)"

text \<open>One call \<open>j.IntnRange(lo, hi)\<close> followed by the rest \<open>k\<close> of the computation.\<close>

definition draw ::
  "'s jitter \<Rightarrow> int \<Rightarrow> int \<Rightarrow> 's \<Rightarrow> (int \<Rightarrow> 's \<Rightarrow> string result \<times> 's) \<Rightarrow> string result \<times> 's" where
  "draw j lo hi s k = (case j lo hi s of (Some d, s') \<Rightarrow> k d s' | (None, s') \<Rightarrow> (Panic, s'))"

definition prependS :: "string \<Rightarrow> string result \<times> 's \<Rightarrow> string result \<times> 's" where
  "prependS p r = (prepend p (fst r), snd r)"

text \<open>\<open>string(base62Digits[i])\<close>.\<close>

definition digit_string :: "int \<Rightarrow> string result" where
  "digit_string i =
     (case byte_at base62Digits i of
        Ok c \<Rightarrow> Ok (string_of_byte c)
      | Error e \<Rightarrow> Error e
      | Panic \<Rightarrow> Panic)"

function midpointJitter ::
  "'s jitter \<Rightarrow> int \<Rightarrow> string \<Rightarrow> string \<Rightarrow> 's \<Rightarrow> string result \<times> 's" where
  "midpointJitter j jitterRange a b s =
     (let i = (if b \<noteq> [] then prefix_loop a b 0 else 0)
      in if b \<noteq> [] \<and> i > 0 then
           (if i > length a
            then prependS (take i b) (midpointJitter j jitterRange [] (drop i b) s)
            else prependS (take i b) (midpointJitter j jitterRange (drop i a) (drop i b) s))
         else
           (let digitA = (if a \<noteq> [] then digit_index (hd a) else 0);
                digitB = (if b \<noteq> [] then digit_index (hd b) else int (length base62Digits))
            in if digitB - digitA > 1 then
                 (let interior = digitB - digitA - 1;
                      center = digitA + 1 + interior div 2
                  in draw j 0 jitterRange s (\<lambda>d1 s1.
                       let lo = max (digitA + 1) (int64 (center - d1))
                       in draw j 0 jitterRange s1 (\<lambda>d2 s2.
                            let hi = min (digitB - 1) (int64 (center + d2))
                            in if hi > lo
                               then draw j lo hi s2 (\<lambda>pick s3. (digit_string pick, s3))
                               else (digit_string lo, s2))))
               else if length b > 1 then
                 (let head = b ! 0;
                      upper = digit_index (b ! 1) - 1;
                      low = 0;
                      high = upper
                  in if high < low then (Ok (take 1 b), s)
                     else if high \<ge> 1
                     then draw j 1 (min high (int64 (1 + jitterRange))) s (\<lambda>pickIdx s1.
                            (prepend (string_of_byte head) (digit_string pickIdx), s1))
                     else (prepend (string_of_byte head) (digit_string 1), s))
               else
                 (let sa = (if length a > 0 then drop 1 a else [])
                  in (case byte_at base62Digits digitA of
                        Ok c \<Rightarrow>
                          prependS (string_of_byte c) (midpointJitter j jitterRange sa [] s)
                      | Error e \<Rightarrow> (Error e, s)
                      | Panic \<Rightarrow> (Panic, s)))))"
  by pat_completeness auto
termination
proof (relation "measure (\<lambda>(j, r, a, b, s). length a + length b)", goal_cases)
  case 1
  show ?case by simp
next
  case (2 j r a b s i)
  then show ?case by (cases b) simp_all
next
  case (3 j r a b s i)
  then show ?case by (cases b) simp_all
next
  case (4 j r a b s i digitA digitB sa c)
  have len: "length base62Digits = 62"
    by (simp add: base62Digits_def)
  show ?case
  proof (cases "a = [] \<and> b = []")
    case True
    with 4(3,4,5) len show ?thesis by simp
  next
    case False
    with 4(7) show ?thesis by (cases a; cases b) simp_all
  qed
qed

declare midpointJitter.simps [simp del]

definition keyBetweenInternal ::
  "'s jitter \<Rightarrow> int \<Rightarrow> string \<Rightarrow> string \<Rightarrow> 's \<Rightarrow> string result \<times> 's" where
  "keyBetweenInternal j jitterRange a b s =
     (case (if a \<noteq> [] then validateOrderKey a else Ok ()) of
        Error e \<Rightarrow> (Error e, s)
      | Panic \<Rightarrow> (Panic, s)
      | Ok _ \<Rightarrow>
     (case (if b \<noteq> [] then validateOrderKey b else Ok ()) of
        Error e \<Rightarrow> (Error e, s)
      | Panic \<Rightarrow> (Panic, s)
      | Ok _ \<Rightarrow>
     if a \<noteq> [] \<and> b \<noteq> [] \<and> a \<ge> b then (Error (a @ '' >= '' @ b), s)
     else if a = [] then
       (if b = [] then (Ok zero, s)
        else
          (case getIntPart b of
             Error e \<Rightarrow> (Error e, s)
           | Panic \<Rightarrow> (Panic, s)
           | Ok ib \<Rightarrow>
               (let fb = drop (length ib) b
                in if ib = smallestInt
                   then prependS ib (midpointJitter j jitterRange [] fb s)
                   else if ib < b then (Ok ib, s)
                   else
                     (case decrementInt ib of
                        Error e \<Rightarrow> (Error e, s)
                      | Panic \<Rightarrow> (Panic, s)
                      | Ok res \<Rightarrow>
                          if res = [] then (Error ''range underflow'', s) else (Ok res, s)))))
     else if b = [] then
       (case getIntPart a of
          Error e \<Rightarrow> (Error e, s)
        | Panic \<Rightarrow> (Panic, s)
        | Ok ia \<Rightarrow>
            (let fa = drop (length ia) a
             in (case incrementInt ia of
                   Error e \<Rightarrow> (Error e, s)
                 | Panic \<Rightarrow> (Panic, s)
                 | Ok i \<Rightarrow>
                     if i = [] then prependS ia (midpointJitter j jitterRange fa [] s)
                     else (Ok i, s))))
     else
       (case getIntPart a of
          Error e \<Rightarrow> (Error e, s)
        | Panic \<Rightarrow> (Panic, s)
        | Ok ia \<Rightarrow>
            (let fa = drop (length ia) a
             in (case getIntPart b of
                   Error e \<Rightarrow> (Error e, s)
                 | Panic \<Rightarrow> (Panic, s)
                 | Ok ib \<Rightarrow>
                     (let fb = drop (length ib) b
                      in if ia = ib then prependS ia (midpointJitter j jitterRange fa fb s)
                         else
                           (case incrementInt ia of
                              Error e \<Rightarrow> (Error e, s)
                            | Panic \<Rightarrow> (Panic, s)
                            | Ok i \<Rightarrow>
                                if i = [] then (Error ''range overflow'', s)
                                else if i < b then (Ok i, s)
                                else prependS ia (midpointJitter j jitterRange fa [] s))))))))"

definition KeyBetweenJitter ::
  "'s jitter \<Rightarrow> int \<Rightarrow> string \<Rightarrow> string \<Rightarrow> 's \<Rightarrow> string result \<times> 's" where
  "KeyBetweenJitter j jitterRange a b s = keyBetweenInternal j jitterRange a b s"

text \<open>The two loops of \<open>NKeysBetweenJitter\<close>, with \<open>k\<close> iterations left.\<close>

fun append_loopJ ::
  "'s jitter \<Rightarrow> int \<Rightarrow> string \<Rightarrow> nat \<Rightarrow> string \<Rightarrow> string list \<Rightarrow> 's \<Rightarrow> string list result \<times> 's" where
  "append_loopJ j r b 0 c out s = (Ok out, s)"
| "append_loopJ j r b (Suc k) c out s =
     (case KeyBetweenJitter j r c b s of
        (Error e, s') \<Rightarrow> (Error e, s')
      | (Panic, s') \<Rightarrow> (Panic, s')
      | (Ok c', s') \<Rightarrow> append_loopJ j r b k c' (out @ [c']) s')"

fun prepend_loopJ ::
  "'s jitter \<Rightarrow> int \<Rightarrow> string \<Rightarrow> nat \<Rightarrow> string \<Rightarrow> string list \<Rightarrow> 's \<Rightarrow> string list result \<times> 's" where
  "prepend_loopJ j r a 0 c out s = (Ok out, s)"
| "prepend_loopJ j r a (Suc k) c out s =
     (case KeyBetweenJitter j r a c s of
        (Error e, s') \<Rightarrow> (Error e, s')
      | (Panic, s') \<Rightarrow> (Panic, s')
      | (Ok c', s') \<Rightarrow> prepend_loopJ j r a k c' (out @ [c']) s')"

function NKeysBetweenJitter ::
  "'s jitter \<Rightarrow> int \<Rightarrow> string \<Rightarrow> string \<Rightarrow> nat \<Rightarrow> 's \<Rightarrow> string list result \<times> 's" where
  "NKeysBetweenJitter j r a b n s =
     (if n = 0 then (Ok [], s)
      else if n = 1 then
        (case KeyBetweenJitter j r a b s of
           (Error e, s') \<Rightarrow> (Error e, s')
         | (Panic, s') \<Rightarrow> (Panic, s')
         | (Ok c, s') \<Rightarrow> (Ok [c], s'))
      else if b = [] then
        (case KeyBetweenJitter j r a b s of
           (Error e, s') \<Rightarrow> (Error e, s')
         | (Panic, s') \<Rightarrow> (Panic, s')
         | (Ok c, s') \<Rightarrow>
             if \<not> make_fits n then (Panic, s')
             else append_loopJ j r b (n - 1) c [c] s')
      else if a = [] then
        (case KeyBetweenJitter j r a b s of
           (Error e, s') \<Rightarrow> (Error e, s')
         | (Panic, s') \<Rightarrow> (Panic, s')
         | (Ok c, s') \<Rightarrow>
             if \<not> make_fits n then (Panic, s')
             else
               (case prepend_loopJ j r a (n - 1) c [c] s' of
                  (Error e, s'') \<Rightarrow> (Error e, s'')
                | (Panic, s'') \<Rightarrow> (Panic, s'')
                | (Ok out, s'') \<Rightarrow> (Ok (reverse out), s'')))
      else
        (let mid = n div 2
         in (case KeyBetweenJitter j r a b s of
               (Error e, s') \<Rightarrow> (Error e, s')
             | (Panic, s') \<Rightarrow> (Panic, s')
             | (Ok c, s') \<Rightarrow>
                 if \<not> make_fits n then (Panic, s')
                 else
                   (case NKeysBetweenJitter j r a c mid s' of
                      (Error e, s1) \<Rightarrow> (Error e, s1)
                    | (Panic, s1) \<Rightarrow> (Panic, s1)
                    | (Ok left, s1) \<Rightarrow>
                        (case NKeysBetweenJitter j r c b (n - mid - 1) s1 of
                           (Error e, s2) \<Rightarrow> (Error e, s2)
                         | (Panic, s2) \<Rightarrow> (Panic, s2)
                         | (Ok right, s2) \<Rightarrow> (Ok (left @ [c] @ right), s2))))))"
  by pat_completeness auto
termination
  by (relation "measure (\<lambda>(j, r, a, b, n, s). n)") auto

declare NKeysBetweenJitter.simps [simp del]

subsection \<open>Keys over the alphabet\<close>

text \<open>
  The package checks the head and the length of a key, never its digits:
  \<open>base62 s\<close> says that every byte of \<open>s\<close> is one of the 62 digits.
\<close>

definition base62 :: "string \<Rightarrow> bool" where
  "base62 s = list_all (\<lambda>c. c \<in> set base62Digits) s"

text \<open>The heads of the negative integer parts are upper-case, those of the others lower-case.\<close>

definition upper_head :: "char \<Rightarrow> bool" where
  "upper_head c = (CHR ''A'' \<le> c \<and> c \<le> CHR ''Z'')"

definition lower_head :: "char \<Rightarrow> bool" where
  "lower_head c = (CHR ''a'' \<le> c \<and> c \<le> CHR ''z'')"

section \<open>Properties\<close>

text \<open>
  Claim C10: for every pair of strings \<open>a\<close>, \<open>b\<close>, valid keys or not and in any order,
  \<open>NKeysBetween(a, b, 0)\<close> and \<open>NKeysBetweenJitter(a, b, 0, j, r)\<close> return the empty list
  and no error, for every jitter source \<open>j\<close>, in any state, and every range \<open>r\<close>; the
  source is not consulted (its state is unchanged).
\<close>

theorem NKeys_zero_empty:
  "NKeysBetween a b 0 = Ok [] \<and> NKeysBetweenJitter j r a b 0 s = (Ok [], s)"
  by (simp add: NKeysBetween.simps NKeysBetweenJitter.simps)

subsection \<open>The randomised midpoint can return the upper bound\<close>

lemma string_of_byte_not_Nil: "string_of_byte c \<noteq> []"
  by (simp add: string_of_byte_def Let_def)

lemma midpointJitter_upper_digit_one: "midpointJitter j r [] ''11'' s = (Ok ''11'', s)"
proof -
  have "prefix_loop [] ''11'' 0 = 0" by code_simp
  moreover have "digit_index (CHR ''1'') = 1" by code_simp
  moreover have "digit_string 1 = Ok ''1''" by code_simp
  moreover have "string_of_byte (CHR ''1'') = ''1''" by code_simp
  ultimately show ?thesis
    by (subst midpointJitter.simps) (simp add: prepend_def)
qed

text \<open>
  Claim C3, at the bounds \<open>a = "a0"\<close> and \<open>b = "a011"\<close>, both of which pass
  \<open>validateOrderKey\<close> and satisfy \<open>a < b\<close>: for every jitter source, in every state, and
  every jitter range, \<open>KeyBetweenJitter\<close> returns \<open>b\<close> itself, which is not strictly below
  \<open>b\<close>, without consulting the source. The digit after the common prefix of the
  fractional parts is \<open>'1'\<close>, so that no digit other than \<open>'0'\<close> is below it, and the
  code takes the digit of index 1.
\<close>

theorem KeyBetweenJitter_returns_upper_bound:
  "validateOrderKey ''a0'' = Ok () \<and> validateOrderKey ''a011'' = Ok ()
   \<and> (''a0'' :: string) < ''a011''
   \<and> KeyBetweenJitter j r ''a0'' ''a011'' s = (Ok ''a011'', s)
   \<and> \<not> ((''a011'' :: string) < ''a011'')"
proof -
  have va: "validateOrderKey ''a0'' = Ok ()" by code_simp
  have vb: "validateOrderKey ''a011'' = Ok ()" by code_simp
  have ia: "getIntPart ''a0'' = Ok ''a0''" by code_simp
  have ib: "getIntPart ''a011'' = Ok ''a0''" by code_simp
  have lt: "(''a0'' :: string) < ''a011''" by code_simp
  have "KeyBetweenJitter j r ''a0'' ''a011'' s = (Ok ''a011'', s)"
    by (simp add: KeyBetweenJitter_def keyBetweenInternal_def va vb ia ib lt
        midpointJitter_upper_digit_one prependS_def prepend_def smallestInt_def)
  with va vb lt show ?thesis by simp
qed

subsection \<open>A jitter range of zero does not give the deterministic key\<close>

lemma midpointJitter_range_zero_extends:
  "\<exists>r s'. midpointJitter j 0 ''1'' ''25'' s = (r, s')
     \<and> (\<forall>x. r = Ok x \<longrightarrow> (\<exists>c. x = ''2'' @ string_of_byte c))"
proof -
  have p: "prefix_loop ''1'' ''25'' 0 = 0" by code_simp
  have d1: "digit_index (CHR ''1'') = 1" by code_simp
  have d2: "digit_index (CHR ''2'') = 2" by code_simp
  have d5: "digit_index (CHR ''5'') = 5" by code_simp
  have s2: "string_of_byte (CHR ''2'') = ''2''" by code_simp
  have i1: "int64 1 = 1" by (simp add: int64_def)
  have m: "midpointJitter j 0 ''1'' ''25'' s
           = draw j 1 1 s (\<lambda>pickIdx s1. (prepend ''2'' (digit_string pickIdx), s1))"
    by (subst midpointJitter.simps) (simp add: p d1 d2 d5 s2 i1)
  show ?thesis
    unfolding m draw_def digit_string_def prepend_def
    by (auto split: prod.splits option.splits result.splits)
qed

text \<open>
  Claim C4, at the bounds \<open>a = "a01"\<close> and \<open>b = "a025"\<close>: \<open>KeyBetween\<close> returns \<open>"a02"\<close>,
  whereas \<open>KeyBetweenJitter\<close> with the jitter range 0 returns something else for every jitter
  source, in every state; with the source \<open>NoJitter\<close> it returns \<open>"a020"\<close>.
\<close>

theorem KeyBetweenJitter_range_zero_differs:
  "KeyBetween ''a01'' ''a025'' = Ok ''a02''
   \<and> fst (KeyBetweenJitter j 0 ''a01'' ''a025'' s) \<noteq> KeyBetween ''a01'' ''a025''
   \<and> fst (KeyBetweenJitter NoJitter 0 ''a01'' ''a025'' ()) = Ok ''a020''"
proof -
  have kb: "KeyBetween ''a01'' ''a025'' = Ok ''a02''" by code_simp
  have nj: "fst (KeyBetweenJitter NoJitter 0 ''a01'' ''a025'' ()) = Ok ''a020''" by code_simp
  have va: "validateOrderKey ''a01'' = Ok ()" by code_simp
  have vb: "validateOrderKey ''a025'' = Ok ()" by code_simp
  have ia: "getIntPart ''a01'' = Ok ''a0''" by code_simp
  have ib: "getIntPart ''a025'' = Ok ''a0''" by code_simp
  have lt: "(''a01'' :: string) < ''a025''" by code_simp
  have k: "KeyBetweenJitter j 0 ''a01'' ''a025'' s
           = prependS ''a0'' (midpointJitter j 0 ''1'' ''25'' s)"
    by (simp add: KeyBetweenJitter_def keyBetweenInternal_def va vb ia ib lt smallestInt_def)
  obtain r s' where m: "midpointJitter j 0 ''1'' ''25'' s = (r, s')"
    and r: "\<forall>x. r = Ok x \<longrightarrow> (\<exists>c. x = ''2'' @ string_of_byte c)"
    using midpointJitter_range_zero_extends [of j s] by (elim exE conjE)
  have "prepend ''a0'' r \<noteq> Ok ''a02''"
  proof (cases r)
    case (Ok x)
    with r obtain c where "x = ''2'' @ string_of_byte c" by blast
    with Ok show ?thesis by (simp add: prepend_def string_of_byte_not_Nil)
  qed (simp_all add: prepend_def)
  with k m kb have ne: "fst (KeyBetweenJitter j 0 ''a01'' ''a025'' s) \<noteq> KeyBetween ''a01'' ''a025''"
    by (simp add: prependS_def)
  from kb ne nj show ?thesis by (simp only: simp_thms)
qed

subsection \<open>The cases of \<open>midpoint\<close>\<close>

lemma byte_at_not_Error: "byte_at s i \<noteq> Error e"
  by (simp add: byte_at_def)

lemma digit_string_not_Error: "digit_string i \<noteq> Error e"
  by (simp add: digit_string_def byte_at_def)

lemma prepend_Error: "prepend p r = Error e \<longleftrightarrow> r = Error e"
  by (simp add: prepend_def split: result.splits)

lemma midpoint_prefix_beyond:
  assumes "b \<noteq> []" "0 < prefix_loop a b 0" "length a < prefix_loop a b 0"
  shows "midpoint a b
         = prepend (take (prefix_loop a b 0) b) (midpoint [] (drop (prefix_loop a b 0) b))"
  by (subst midpoint.simps) (simp only: Let_def assms if_True simp_thms)

lemma midpoint_prefix_within:
  assumes "b \<noteq> []" "0 < prefix_loop a b 0" "\<not> length a < prefix_loop a b 0"
  shows "midpoint a b
         = prepend (take (prefix_loop a b 0) b)
             (midpoint (drop (prefix_loop a b 0) a) (drop (prefix_loop a b 0) b))"
  by (subst midpoint.simps) (simp only: Let_def assms if_True if_False simp_thms)

lemma midpoint_no_prefix:
  assumes "b = [] \<or> prefix_loop a b 0 = 0"
  shows "midpoint a b
         = (let digitA = (if a \<noteq> [] then digit_index (hd a) else 0);
                digitB = (if b \<noteq> [] then digit_index (hd b) else int (length base62Digits))
            in if digitB - digitA > 1 then digit_string (round_half (digitA + digitB))
               else if length b > 1 then Ok (take 1 b)
               else (case byte_at base62Digits digitA of
                       Ok c \<Rightarrow> prepend (string_of_byte c) (midpoint (drop 1 a) [])
                     | Error e \<Rightarrow> Error e
                     | Panic \<Rightarrow> Panic))"
proof -
  have c: "\<not> (b \<noteq> [] \<and> 0 < (if b \<noteq> [] then prefix_loop a b 0 else 0))"
    using assms by auto
  have d: "(if 0 < length a then drop 1 a else []) = drop 1 a" by simp
  show ?thesis
    by (subst midpoint.simps) (simp only: Let_def c d if_False digit_string_def)
qed

lemma midpoint_not_Error: "midpoint a b \<noteq> Error e"
proof (induction "length a + length b" arbitrary: a b rule: less_induct)
  case less
  show ?case
  proof (cases "b \<noteq> [] \<and> 0 < prefix_loop a b 0")
    case True
    then have d: "length (drop (prefix_loop a b 0) b) < length b" by simp
    have 1: "midpoint [] (drop (prefix_loop a b 0) b) \<noteq> Error e"
      by (rule less) (use d in simp)
    have 2: "midpoint (drop (prefix_loop a b 0) a) (drop (prefix_loop a b 0) b) \<noteq> Error e"
      by (rule less) (use d in simp)
    from True 1 2 show ?thesis
      by (cases "length a < prefix_loop a b 0")
         (simp_all add: midpoint_prefix_beyond midpoint_prefix_within prepend_Error)
  next
    case False
    then have np: "b = [] \<or> prefix_loop a b 0 = 0" by auto
    show ?thesis
    proof (cases "a = [] \<and> b = []")
      case True
      have "int (length base62Digits) = 62" by (simp add: base62Digits_def)
      with True show ?thesis
        by (simp add: midpoint_no_prefix digit_string_not_Error)
    next
      case ne: False
      then have "length (drop 1 a) + length ([] :: string) < length a + length b"
        by (cases a; cases b) simp_all
      then have "midpoint (drop 1 a) [] \<noteq> Error e" by (rule less)
      then show ?thesis
        unfolding midpoint_no_prefix [OF np] Let_def
        by (auto simp: digit_string_not_Error prepend_Error byte_at_not_Error split: result.splits)
    qed
  qed
qed

subsection \<open>Termination\<close>

text \<open>
  For a recursive function \<open>f\<close>, \<open>f_rel x y\<close> says that the evaluation of \<open>f y\<close> calls
  \<open>f x\<close>, and \<open>f_dom y\<close> that every chain of such nested calls that starts at \<open>y\<close> is
  finite: \<open>f\<close> terminates on \<open>y\<close>.
\<close>

lemma explode_total: "All explode_dom"
proof (relation "measure length", goal_cases)
  case 1
  show ?case by simp
next
  case (2 s w)
  have "0 < utf8_width s"
    unfolding utf8_width_def Let_def by (simp only: if_distrib [of "\<lambda>n. 0 < n"] zero_less_one zero_less_numeral if_True if_False if_cancel)
  with 2 show ?case by simp
qed

lemma inc_loop_total: "All inc_loop_dom"
  by (relation "measure (\<lambda>(digs, i). nat (i + 1))") auto

lemma dec_loop_total: "All dec_loop_dom"
  by (relation "measure (\<lambda>(digs, i). nat (i + 1))") auto

lemma prefix_loop_total: "All prefix_loop_dom"
  by (relation "measure (\<lambda>(a, b, i). length b - i)") auto

lemma reverse_loop_total: "All reverse_loop_dom"
  by (relation "measure (\<lambda>(values, i). length values div 2 - i)") auto

lemma NKeysBetween_total: "All NKeysBetween_dom"
  by (relation "measure (\<lambda>(a, b, n). n)") auto

lemma midpoint_shrinks:
  assumes "midpoint_rel (a', b') (a, b)"
  shows "length a' + length b' < length a + length b"
  using assms
proof (cases rule: midpoint_rel.cases)
  case (1 x)
  then show ?thesis by (cases b) simp_all
next
  case (2 x)
  then show ?thesis by (cases b) simp_all
next
  case (3 x xa xb x1)
  have len: "length base62Digits = 62"
    by (simp add: base62Digits_def)
  show ?thesis
  proof (cases "a = [] \<and> b = []")
    case True
    with 3 len show ?thesis by simp
  next
    case False
    with 3 show ?thesis by (cases a; cases b) simp_all
  qed
qed

lemma midpoint_total: "All midpoint_dom"
proof (relation "measure (\<lambda>(a, b). length a + length b)", goal_cases)
  case 1
  show ?case by simp
next
  case (2 a b i)
  then have "midpoint_rel ([], drop i b) (a, b)" by (intro midpoint_rel.intros) simp_all
  then show ?case using midpoint_shrinks by fastforce
next
  case (3 a b i)
  then have "midpoint_rel (drop i a, drop i b) (a, b)" by (intro midpoint_rel.intros) simp_all
  then show ?case using midpoint_shrinks by fastforce
next
  case (4 a b i digitA digitB sa c)
  then have "midpoint_rel (sa, []) (a, b)" by (intro midpoint_rel.intros(3) [of i b a digitA digitB sa c]) simp_all
  then show ?case using midpoint_shrinks by fastforce
qed

text \<open>
  Claim C9: every operation terminates on every input. The recursion of \<open>midpoint\<close>
  terminates on every pair of strings, with a string or a run-time panic as the outcome,
  and each of its recursive calls has arguments of smaller total length. The loops of \<open>midpoint\<close>, \<open>incrementInt\<close>, \<open>decrementInt\<close> and
  \<open>reverse\<close>, the splitting of a string and the recursion of \<open>NKeysBetween\<close> terminate on
  every input. \<open>KeyBetween\<close> is not recursive and calls these only; the two loops of
  \<open>NKeysBetween\<close> run \<open>n - 1\<close> times and are primitive recursions on that number.
\<close>

theorem operations_terminate:
  "midpoint_dom (a, b)
   \<and> (midpoint a b = Panic \<or> (\<exists>m. midpoint a b = Ok m))
   \<and> (\<forall>a' b'. midpoint_rel (a', b') (a, b) \<longrightarrow> length a' + length b' < length a + length b)
   \<and> prefix_loop_dom (a, b, k) \<and> explode_dom x \<and> inc_loop_dom (digs, i)
   \<and> dec_loop_dom (digs, i) \<and> reverse_loop_dom (vs, k) \<and> NKeysBetween_dom (a, b, n)"
proof -
  have "midpoint a b = Panic \<or> (\<exists>m. midpoint a b = Ok m)"
    by (cases "midpoint a b") (simp_all add: midpoint_not_Error)
  with midpoint_total explode_total inc_loop_total dec_loop_total prefix_loop_total
    reverse_loop_total NKeysBetween_total midpoint_shrinks
  show ?thesis by blast
qed

theorem operations_terminate_witness:
  "midpoint_rel ([], ''V'') ([], ''0V'') \<and> length ([] :: string) + length ''V'' < length ([] :: string) + length ''0V''"
proof -
  have p: "prefix_loop [] ''0V'' 0 = 1" by code_simp
  have "midpoint_rel ([], drop 1 ''0V'') ([], ''0V'')"
    by (rule midpoint_rel.intros(1)) (simp_all add: p)
  then have r: "midpoint_rel ([], ''V'') ([], ''0V'')" by simp
  with operations_terminate [of "[]" "''0V''"] show ?thesis by blast
qed

end
